theory Spec2Isabelle
  imports Main
begin

section \<open>The types a probe can be asked about\<close>

text \<open>
  The program of \<^verbatim>\<open>cpp_has_something.cpp\<close> runs at compile time: the class template
  generated by \<^verbatim>\<open>DEFINE_has_member\<close> takes a type and yields a boolean constant. Its
  input is therefore a C++ type, described here as far as the expression
  \<^verbatim>\<open>&U::member_name\<close> looks into it: whether it is a complete class, which members
  it declares under which name, of which kind and with which access, which class it is
  derived from and with which access, and which classes it names as friends. A class has
  at most one direct base class here; multiple inheritance, member templates, unions and
  cv-qualifiers are left out.
\<close>

datatype fundamental = BoolT | CharT | IntT | LongT | DoubleT

datatype access = Public | Protected | Private

datatype cpp_type =
    VoidT
  | Fundamental fundamental
  | PointerTo cpp_type
  | LvalueRef cpp_type
  | FunctionT cpp_type "cpp_type list"
  | MemberPointer string cpp_type
  | Enumeration string "string list"
  | IncompleteClass string
  | Class string "string list" inheritance "member_decl list"
and inheritance =
    NoBase
  | Base access cpp_type
and member_decl =
    Member string access member_kind
and member_kind =
    DataMember cpp_type
  | BitField cpp_type nat
  | StaticDataMember cpp_type
  | MemberFunction cpp_type "cpp_type list"
  | StaticMemberFunction cpp_type "cpp_type list"
  | NestedType cpp_type
  | Enumerator

text \<open>
  \<open>Class name friends base members\<close> is a complete class, \<open>Base a b\<close> its derivation
  \<^verbatim>\<open>: a b\<close> from the complete class \<open>b\<close>; \<open>MemberPointer cn t\<close> is the type
  \<^verbatim>\<open>t cn::*\<close>; \<open>Enumeration name enumerators\<close> is an enumeration type; \<open>NestedType t\<close> is a
  member typedef or a nested class naming \<open>t\<close>; \<open>Enumerator\<close> is an enumerator of an
  unscoped enumeration declared inside the class.
\<close>

fun member_name :: "member_decl \<Rightarrow> string" where
  "member_name (Member n a k) = n"

fun member_access :: "member_decl \<Rightarrow> access" where
  "member_access (Member n a k) = a"

fun member_kind_of :: "member_decl \<Rightarrow> member_kind" where
  "member_kind_of (Member n a k) = k"

fun names_a_type :: "member_decl \<Rightarrow> bool" where
  "names_a_type (Member n a (NestedType t)) = True"
| "names_a_type (Member n a k) = False"

definition members_named :: "member_decl list \<Rightarrow> string \<Rightarrow> member_decl list" where
  "members_named ms n = filter (\<lambda>d. member_name d = n) ms"

text \<open>
  Lookup of a name in an expression, in the scope of one class: a type name declared in
  the same class as a data member, function or enumerator of that name is hidden by it.
\<close>

definition lookup_member :: "member_decl list \<Rightarrow> string \<Rightarrow> member_decl list" where
  "lookup_member ms n =
     (let ds = members_named ms n;
          nts = filter (\<lambda>d. \<not> names_a_type d) ds
      in if nts = [] then ds else nts)"

text \<open>
  Lookup of \<^verbatim>\<open>T::m\<close>: the declarations of the class itself, which hide those of its
  base class; when the class declares none, the lookup goes on in the base class. The
  result is the class the name was found in and the declarations found there.
\<close>

fun find_member :: "cpp_type \<Rightarrow> string \<Rightarrow> string \<times> member_decl list" where
  "find_member (Class cn friends NoBase ms) m = (cn, lookup_member ms m)"
| "find_member (Class cn friends (Base ba bt) ms) m =
     (if lookup_member ms m = [] then find_member bt m else (cn, lookup_member ms m))"
| "find_member T m = ([], [])"

text \<open>
  Member access. A member keeps its access in a class derived with \<^verbatim>\<open>public\<close>, becomes
  protected or private in a class derived with \<^verbatim>\<open>protected\<close> or \<^verbatim>\<open>private\<close>, and a
  private member of the base class is no accessible member of the derived class at all.
\<close>

fun inherited_access :: "access \<Rightarrow> access \<Rightarrow> access option" where
  "inherited_access ba Private = None"
| "inherited_access Public a = Some a"
| "inherited_access Protected a = Some Protected"
| "inherited_access Private a = Some Private"

fun access_as_member :: "cpp_type \<Rightarrow> string \<Rightarrow> access option" where
  "access_as_member (Class cn friends NoBase ms) m =
     (case lookup_member ms m of [] \<Rightarrow> None | d # ds \<Rightarrow> Some (member_access d))"
| "access_as_member (Class cn friends (Base ba bt) ms) m =
     (case lookup_member ms m of
        [] \<Rightarrow> (case access_as_member bt m of None \<Rightarrow> None | Some a \<Rightarrow> inherited_access ba a)
      | d # ds \<Rightarrow> Some (member_access d))"
| "access_as_member T m = None"

text \<open>
  Access from inside class \<open>ctx\<close>, which is neither the class itself nor derived from it:
  public members, and every member when the class names \<open>ctx\<close> a friend.
\<close>

definition accessible :: "string \<Rightarrow> string list \<Rightarrow> access \<Rightarrow> bool" where
  "accessible ctx friends a = (a = Public \<or> ctx \<in> set friends)"

text \<open>
  \<^verbatim>\<open>T::m\<close> is accessible from inside class \<open>ctx\<close> when \<open>m\<close> as a member of \<open>T\<close> is
  accessible there, or when \<open>m\<close> is a member of the base class, the base class is
  accessible there (derived with \<^verbatim>\<open>public\<close>, or \<open>ctx\<close> a friend of \<open>T\<close>) and \<open>m\<close>, named
  in the base class, is accessible there.
\<close>

fun accessible_at :: "string \<Rightarrow> cpp_type \<Rightarrow> string \<Rightarrow> bool" where
  "accessible_at ctx (Class cn friends NoBase ms) m =
     (case access_as_member (Class cn friends NoBase ms) m of
        None \<Rightarrow> False
      | Some a \<Rightarrow> accessible ctx friends a)"
| "accessible_at ctx (Class cn friends (Base ba bt) ms) m =
     ((case access_as_member (Class cn friends (Base ba bt) ms) m of
         None \<Rightarrow> False
       | Some a \<Rightarrow> accessible ctx friends a) \<or>
      (lookup_member ms m = [] \<and> accessible ctx friends ba \<and> accessible_at ctx bt m))"
| "accessible_at ctx T m = False"

section \<open>The expression \<^verbatim>\<open>&U::member_name\<close>\<close>

datatype ill_formed =
    NotAClass
  | IncompleteType
  | NoSuchMember
  | Inaccessible
  | NamesAType
  | NamesNoType
  | OverloadedWithoutTarget
  | PointerToReferenceMember
  | AddressOfBitField
  | AddressOfEnumerator
  | EnumeratorOfEnumeration

fun strip_reference :: "cpp_type \<Rightarrow> cpp_type" where
  "strip_reference (LvalueRef t) = t"
| "strip_reference t = t"

text \<open>The type of \<^verbatim>\<open>&cn::m\<close> for the one declaration \<open>m\<close> names in class \<open>cn\<close>.\<close>

fun address_of_declaration :: "string \<Rightarrow> member_kind \<Rightarrow> ill_formed + cpp_type" where
  "address_of_declaration cn (DataMember (LvalueRef t)) = Inl PointerToReferenceMember"
| "address_of_declaration cn (DataMember t) = Inr (MemberPointer cn t)"
| "address_of_declaration cn (BitField t w) = Inl AddressOfBitField"
| "address_of_declaration cn (StaticDataMember t) = Inr (PointerTo (strip_reference t))"
| "address_of_declaration cn (MemberFunction r ps) = Inr (MemberPointer cn (FunctionT r ps))"
| "address_of_declaration cn (StaticMemberFunction r ps) = Inr (PointerTo (FunctionT r ps))"
| "address_of_declaration cn (NestedType t) = Inl NamesAType"
| "address_of_declaration cn Enumerator = Inl AddressOfEnumerator"

text \<open>
  \<^verbatim>\<open>&U::m\<close> written inside class \<open>ctx\<close>, with no target type (the operand of
  \<^verbatim>\<open>decltype\<close>): its type, or why it is ill-formed. A name declared more than once
  is a set of overloaded functions, whose address needs a target type. The address of an
  inherited member is a pointer to member of the class that declares it.
\<close>

fun address_of_member :: "string \<Rightarrow> cpp_type \<Rightarrow> string \<Rightarrow> ill_formed + cpp_type" where
  "address_of_member ctx (Class cn friends inh ms) m =
     (case find_member (Class cn friends inh ms) m of
        (dc, []) \<Rightarrow> Inl NoSuchMember
      | (dc, [d]) \<Rightarrow>
          (if names_a_type d then Inl NamesAType
           else if \<not> accessible_at ctx (Class cn friends inh ms) m then Inl Inaccessible
           else address_of_declaration dc (member_kind_of d))
      | (dc, d # e # ds) \<Rightarrow> Inl OverloadedWithoutTarget)"
| "address_of_member ctx (IncompleteClass cn) m = Inl IncompleteType"
| "address_of_member ctx (Enumeration en es) m =
     (if m \<in> set es then Inl EnumeratorOfEnumeration else Inl NoSuchMember)"
| "address_of_member ctx T m = Inl NotAClass"

text \<open>
  In the declaration of a function template an ill-formed \<^verbatim>\<open>&U::m\<close> is a substitution
  failure, which removes the declaration from the candidates without an error. The one
  exception is the enumerator of an enumeration type: for \<^verbatim>\<open>enum E { m };\<close> g++ does
  not treat \<^verbatim>\<open>&E::m\<close> as a substitution failure and rejects the translation unit.
\<close>

fun substitution_failure :: "ill_formed \<Rightarrow> bool" where
  "substitution_failure EnumeratorOfEnumeration = False"
| "substitution_failure e = True"

section \<open>The probe generated by \<^verbatim>\<open>DEFINE_has_member\<close>\<close>

text \<open>
  \<^verbatim>\<open>sizeof(char)\<close> is 1; the sizes of the other fundamental types are the
  implementation's, a parameter of the program.
\<close>

record abi =
  sizeof_bool :: nat
  sizeof_int :: nat
  sizeof_long :: nat
  sizeof_double :: nat

fun sizeof_fundamental :: "abi \<Rightarrow> fundamental \<Rightarrow> nat" where
  "sizeof_fundamental abi CharT = 1"
| "sizeof_fundamental abi BoolT = sizeof_bool abi"
| "sizeof_fundamental abi IntT = sizeof_int abi"
| "sizeof_fundamental abi LongT = sizeof_long abi"
| "sizeof_fundamental abi DoubleT = sizeof_double abi"

datatype build_error =
    Redefinition string
  | Undeclared string
  | IllFormed ill_formed
  | NoMatchingFunction
  | AmbiguousCall

text \<open>\<^verbatim>\<open>class temp_has_member_##member_name\<close>: the name of the generated class template.\<close>

definition probe_class_name :: "string \<Rightarrow> string" where
  "probe_class_name m = ''temp_has_member_'' @ m"

text \<open>\<^verbatim>\<open>typedef char yes_type; typedef long no_type;\<close>\<close>

definition yes_type :: fundamental where
  "yes_type = CharT"

definition no_type :: fundamental where
  "no_type = LongT"

datatype parameter = Param cpp_type | Ellipsis

datatype candidate = Candidate (parameter_of: parameter) (returns: fundamental)

text \<open>
  The two declarations of \<^verbatim>\<open>test\<close> with \<open>U := T\<close> substituted:
  \<^verbatim>\<open>template <typename U> static yes_type test(decltype(&U::member_name));\<close>
  \<^verbatim>\<open>template <typename U> static no_type  test(...);\<close>
  When the substitution into the first one fails, that declaration is dropped from the
  candidates and no error is raised; an ill-formed expression that is no substitution
  failure is a build error.
\<close>

definition test_candidates :: "string \<Rightarrow> cpp_type \<Rightarrow> build_error + candidate list" where
  "test_candidates m T =
     (case address_of_member (probe_class_name m) T m of
        Inr p \<Rightarrow> Inr [Candidate (Param p) yes_type, Candidate Ellipsis no_type]
      | Inl e \<Rightarrow>
          (if substitution_failure e then Inr [Candidate Ellipsis no_type]
           else Inl (IllFormed e)))"

text \<open>
  Overload resolution of a call with the one argument \<^verbatim>\<open>0\<close>. The literal converts to
  an arithmetic type, and as a null pointer constant to a pointer or a pointer to member,
  by a standard conversion; it matches an ellipsis by an ellipsis conversion, which is
  worse than any standard conversion. The parameter of the first \<^verbatim>\<open>test\<close> is a pointer
  or a pointer to member whenever its type can be formed; no other parameter type is
  given a conversion here.
\<close>

datatype conversion = StandardConversion | EllipsisConversion

fun conversion_from_zero :: "parameter \<Rightarrow> conversion option" where
  "conversion_from_zero Ellipsis = Some EllipsisConversion"
| "conversion_from_zero (Param (Fundamental f)) = Some StandardConversion"
| "conversion_from_zero (Param (PointerTo t)) = Some StandardConversion"
| "conversion_from_zero (Param (MemberPointer cn t)) = Some StandardConversion"
| "conversion_from_zero (Param t) = None"

definition viable :: "candidate \<Rightarrow> bool" where
  "viable c = (conversion_from_zero (parameter_of c) \<noteq> None)"

definition better :: "candidate \<Rightarrow> candidate \<Rightarrow> bool" where
  "better c d =
     (conversion_from_zero (parameter_of c) = Some StandardConversion \<and>
      conversion_from_zero (parameter_of d) = Some EllipsisConversion)"

definition overload_resolution :: "candidate list \<Rightarrow> build_error + candidate" where
  "overload_resolution cs =
     (let vs = filter viable cs in
      if vs = [] then Inl NoMatchingFunction
      else case filter (\<lambda>c. list_all (\<lambda>d. d = c \<or> better c d) vs) vs of
             [c] \<Rightarrow> Inr c
           | _ \<Rightarrow> Inl AmbiguousCall)"

text \<open>The call \<^verbatim>\<open>test<T>(0)\<close>: the declaration it selects.\<close>

definition call_test :: "string \<Rightarrow> cpp_type \<Rightarrow> build_error + candidate" where
  "call_test m T =
     (case test_candidates m T of
        Inl e \<Rightarrow> Inl e
      | Inr cs \<Rightarrow> overload_resolution cs)"

text \<open>
  \<^verbatim>\<open>static constexpr bool value = sizeof(test<T>(0)) == sizeof(yes_type);\<close>
  The size is that of the return type of the selected declaration.
\<close>

definition temp_has_member_value :: "abi \<Rightarrow> string \<Rightarrow> cpp_type \<Rightarrow> build_error + bool" where
  "temp_has_member_value abi m T =
     (case call_test m T of
        Inl e \<Rightarrow> Inl e
      | Inr c \<Rightarrow> Inr (sizeof_fundamental abi (returns c) = sizeof_fundamental abi yes_type))"

text \<open>
  The translation unit, as far as the two macros see it: the class templates defined so
  far at namespace scope. \<^verbatim>\<open>DEFINE_has_member(member_name)\<close> defines one more; a class
  template is defined at most once in a translation unit.
\<close>

type_synonym scope = "string list"

definition DEFINE_has_member :: "string \<Rightarrow> scope \<Rightarrow> build_error + scope" where
  "DEFINE_has_member m sc =
     (if probe_class_name m \<in> set sc then Inl (Redefinition (probe_class_name m))
      else Inr (probe_class_name m # sc))"

text \<open>
  \<^verbatim>\<open>#define temp_has_member(class_, member_name) temp_has_member_##member_name<class_>::value\<close>
\<close>

definition temp_has_member :: "abi \<Rightarrow> scope \<Rightarrow> cpp_type \<Rightarrow> string \<Rightarrow> build_error + bool" where
  "temp_has_member abi sc T m =
     (if probe_class_name m \<in> set sc then temp_has_member_value abi m T
      else Inl (Undeclared (probe_class_name m)))"

section \<open>The demonstration program\<close>

text \<open>
  \<^verbatim>\<open>std::cout\<close>, as far as the program uses it: the characters written so far and
  the \<^verbatim>\<open>boolalpha\<close> format flag, which is clear when the program starts and which the
  program never sets (the line that would is commented out).
\<close>

record ostream =
  written :: string
  boolalpha :: bool

definition cout_at_start :: ostream where
  "cout_at_start = \<lparr>written = [], boolalpha = False\<rparr>"

definition put_string :: "string \<Rightarrow> ostream \<Rightarrow> ostream" where
  "put_string s os = os\<lparr>written := written os @ s\<rparr>"

definition put_bool :: "bool \<Rightarrow> ostream \<Rightarrow> ostream" where
  "put_bool b os =
     put_string
       (if boolalpha os then (if b then ''true'' else ''false'')
        else (if b then ''1'' else ''0''))
       os"

definition endl :: "ostream \<Rightarrow> ostream" where
  "endl os = put_string [CHR 0x0A] os"

text \<open>The three structs of the program, and \<^verbatim>\<open>std::vector<X>\<close> with the one member
  the program names, its member typedef \<^verbatim>\<open>value_type\<close>.\<close>

definition CubeSphereObject :: cpp_type where
  "CubeSphereObject =
     Class ''CubeSphereObject'' [] NoBase
       [Member ''x'' Public (DataMember (Fundamental DoubleT)),
        Member ''y'' Public (DataMember (Fundamental DoubleT)),
        Member ''z'' Public (DataMember (Fundamental DoubleT)),
        Member ''width'' Public (DataMember (Fundamental DoubleT)),
        Member ''length'' Public (DataMember (Fundamental DoubleT)),
        Member ''height'' Public (DataMember (Fundamental DoubleT)),
        Member ''heading'' Public (DataMember (Fundamental DoubleT))]"

definition B :: cpp_type where
  "B = Class ''B'' [] NoBase [Member ''heading'' Public (DataMember (Fundamental BoolT))]"

definition C :: cpp_type where
  "C = Class ''C'' [] NoBase [Member ''headings'' Public (DataMember (Fundamental BoolT))]"

definition std_vector :: "cpp_type \<Rightarrow> cpp_type" where
  "std_vector X =
     Class ''std::vector'' [] NoBase [Member ''value_type'' Public (NestedType X)]"

text \<open>\<^verbatim>\<open>typename T::n\<close> written inside class \<open>ctx\<close>: the type it names.\<close>

fun nested_type :: "string \<Rightarrow> cpp_type \<Rightarrow> string \<Rightarrow> ill_formed + cpp_type" where
  "nested_type ctx (Class cn friends inh ms) n =
     (case find_member (Class cn friends inh ms) n of
        (dc, []) \<Rightarrow> Inl NoSuchMember
      | (dc, [Member n' a (NestedType t)]) \<Rightarrow>
          (if accessible_at ctx (Class cn friends inh ms) n then Inr t else Inl Inaccessible)
      | (dc, ds) \<Rightarrow> Inl NamesNoType)"
| "nested_type ctx (IncompleteClass cn) n = Inl IncompleteType"
| "nested_type ctx T n = Inl NotAClass"

text \<open>
  The constructor of \<^verbatim>\<open>test<T>\<close>, in the scope \<open>sc\<close> it is defined in:
  \<^verbatim>\<open>cout << "has_member(T, heading) " << temp_has_member(typename T:: value_type, heading) << endl;\<close>
  \<^verbatim>\<open>cout << endl;\<close>
  An ill-formed instantiation is a build error; otherwise the stream after the two
  statements. The destructor is empty.
\<close>

definition test_constructor :: "abi \<Rightarrow> scope \<Rightarrow> cpp_type \<Rightarrow> ostream \<Rightarrow> build_error + ostream" where
  "test_constructor abi sc T os =
     (case nested_type ''test'' T ''value_type'' of
        Inl e \<Rightarrow> Inl (IllFormed e)
      | Inr V \<Rightarrow>
          (case temp_has_member abi sc V ''heading'' of
             Inl e \<Rightarrow> Inl e
           | Inr b \<Rightarrow> Inr (endl (endl (put_bool b (put_string ''has_member(T, heading) '' os))))))"

text \<open>
  \<^verbatim>\<open>main\<close> takes no arguments; it constructs
  \<^verbatim>\<open>test<std::vector<CubeSphereObject> > a; test<std::vector<B> > b; test<std::vector<C> > c;\<close>
  and returns 0. Its result in scope \<open>sc\<close>, started with the stream \<open>cout\<close>, is a build
  error, or the exit code and the stream at the end.
\<close>

definition main :: "abi \<Rightarrow> scope \<Rightarrow> ostream \<Rightarrow> build_error + int \<times> ostream" where
  "main abi sc cout =
     (case test_constructor abi sc (std_vector CubeSphereObject) cout of
        Inl e \<Rightarrow> Inl e
      | Inr os1 \<Rightarrow>
     (case test_constructor abi sc (std_vector B) os1 of
        Inl e \<Rightarrow> Inl e
      | Inr os2 \<Rightarrow>
     (case test_constructor abi sc (std_vector C) os2 of
        Inl e \<Rightarrow> Inl e
      | Inr os3 \<Rightarrow> Inr (0, os3))))"

text \<open>
  The translation unit and its run: \<^verbatim>\<open>DEFINE_has_member(heading);\<close> at namespace scope,
  where no class template has been defined before it (the headers define theirs in
  namespace \<^verbatim>\<open>std\<close>), then \<^verbatim>\<open>main\<close>.
\<close>

definition program :: "abi \<Rightarrow> build_error + int \<times> ostream" where
  "program abi =
     (case DEFINE_has_member ''heading'' [] of
        Inl e \<Rightarrow> Inl e
      | Inr sc \<Rightarrow> main abi sc cout_at_start)"

section \<open>Notions the properties are stated with\<close>

text \<open>A usual implementation: LP64, as on 64-bit Linux.\<close>

definition lp64 :: abi where
  "lp64 = \<lparr>sizeof_bool = 1, sizeof_int = 4, sizeof_long = 8, sizeof_double = 8\<rparr>"

text \<open>\<^verbatim>\<open>DEFINE_has_member(m)\<close> has been used in the scope.\<close>

definition registered :: "scope \<Rightarrow> string \<Rightarrow> bool" where
  "registered sc m = (probe_class_name m \<in> set sc)"

text \<open>A translation unit that uses \<^verbatim>\<open>DEFINE_has_member\<close> for each name of a list, in order.\<close>

fun DEFINE_all :: "string list \<Rightarrow> scope \<Rightarrow> build_error + scope" where
  "DEFINE_all [] sc = Inr sc"
| "DEFINE_all (m # ms) sc =
     (case DEFINE_has_member m sc of
        Inl e \<Rightarrow> Inl e
      | Inr sc' \<Rightarrow> DEFINE_all ms sc')"

text \<open>The type is a complete class that itself declares a member of that name, of any kind.\<close>

fun declares_member :: "cpp_type \<Rightarrow> string \<Rightarrow> bool" where
  "declares_member (Class cn friends inh ms) m = (members_named ms m \<noteq> [])"
| "declares_member T m = False"

text \<open>The same, for a member that class \<open>ctx\<close> may access.\<close>

fun declares_accessible_member :: "string \<Rightarrow> cpp_type \<Rightarrow> string \<Rightarrow> bool" where
  "declares_accessible_member ctx (Class cn friends inh ms) m =
     list_ex (\<lambda>d. accessible ctx friends (member_access d)) (members_named ms m)"
| "declares_accessible_member ctx T m = False"

text \<open>
  The type has a member of that name: a complete class that declares one or inherits one
  from a base class, of any kind and with any access, or an enumeration with an
  enumerator of that name.
\<close>

fun has_member_named :: "cpp_type \<Rightarrow> string \<Rightarrow> bool" where
  "has_member_named (Class cn friends NoBase ms) m = (members_named ms m \<noteq> [])"
| "has_member_named (Class cn friends (Base ba bt) ms) m =
     (members_named ms m \<noteq> [] \<or> has_member_named bt m)"
| "has_member_named (Enumeration en es) m = (m \<in> set es)"
| "has_member_named T m = False"

fun has_enumerator :: "cpp_type \<Rightarrow> string \<Rightarrow> bool" where
  "has_enumerator (Enumeration en es) m = (m \<in> set es)"
| "has_enumerator T m = False"

text \<open>
  The kinds of member whose address can be taken: a non-static data member that is
  neither a reference nor a bit-field, a static data member, a member function.
\<close>

fun addressable :: "member_kind \<Rightarrow> bool" where
  "addressable (DataMember (LvalueRef t)) = False"
| "addressable (DataMember t) = True"
| "addressable (BitField t w) = False"
| "addressable (StaticDataMember t) = True"
| "addressable (MemberFunction r ps) = True"
| "addressable (StaticMemberFunction r ps) = True"
| "addressable (NestedType t) = False"
| "addressable Enumerator = False"

text \<open>
  \<^verbatim>\<open>&T::m\<close> is well-formed inside class \<open>ctx\<close>, said without computing its type: the name
  \<open>m\<close> denotes exactly one member of the complete class \<open>T\<close>, of a kind whose address can
  be taken, and that member is accessible from \<open>ctx\<close>.
\<close>

definition address_well_formed :: "string \<Rightarrow> cpp_type \<Rightarrow> string \<Rightarrow> bool" where
  "address_well_formed ctx T m =
     (case snd (find_member T m) of
        [d] \<Rightarrow> addressable (member_kind_of d) \<and> accessible_at ctx T m
      | ds \<Rightarrow> False)"

fun is_complete_class :: "cpp_type \<Rightarrow> bool" where
  "is_complete_class (Class cn friends inh ms) = True"
| "is_complete_class T = False"

fun is_function :: "member_decl \<Rightarrow> bool" where
  "is_function (Member n a (MemberFunction r ps)) = True"
| "is_function (Member n a (StaticMemberFunction r ps)) = True"
| "is_function (Member n a k) = False"

section \<open>What the probe computes\<close>

lemma address_of_declaration_pointer:
  "address_of_declaration cn k = Inr p \<Longrightarrow> conversion_from_zero (Param p) = Some StandardConversion"
  by (induction cn k rule: address_of_declaration.induct) auto

lemma address_of_declaration_failure:
  "address_of_declaration cn k = Inl e \<Longrightarrow> substitution_failure e"
  by (induction cn k rule: address_of_declaration.induct) auto

lemma address_of_member_pointer:
  assumes "address_of_member ctx T m = Inr p"
  shows "conversion_from_zero (Param p) = Some StandardConversion"
proof (cases T)
  case (Class cn fr inh ms)
  with assms show ?thesis
    by (auto split: prod.splits list.splits if_splits dest: address_of_declaration_pointer)
qed (use assms in \<open>auto split: if_splits\<close>)

lemma address_of_member_failure:
  assumes "address_of_member ctx T m = Inl e" and "\<not> has_enumerator T m"
  shows "substitution_failure e"
proof (cases T)
  case (Class cn fr inh ms)
  with assms(1) show ?thesis
    by (auto split: prod.splits list.splits if_splits dest: address_of_declaration_failure)
qed (use assms in \<open>auto split: if_splits\<close>)

lemma resolution_yes:
  assumes "conversion_from_zero (Param p) = Some StandardConversion"
  shows "overload_resolution [Candidate (Param p) yes_type, Candidate Ellipsis no_type] =
         Inr (Candidate (Param p) yes_type)"
  using assms by (simp add: overload_resolution_def viable_def better_def)

lemma resolution_no:
  "overload_resolution [Candidate Ellipsis no_type] = Inr (Candidate Ellipsis no_type)"
  by (simp add: overload_resolution_def viable_def better_def)

lemma call_test_well_formed:
  "address_of_member (probe_class_name m) T m = Inr p \<Longrightarrow>
   call_test m T = Inr (Candidate (Param p) yes_type)"
  by (simp add: call_test_def test_candidates_def resolution_yes address_of_member_pointer)

lemma call_test_failure:
  "address_of_member (probe_class_name m) T m = Inl e \<Longrightarrow> substitution_failure e \<Longrightarrow>
   call_test m T = Inr (Candidate Ellipsis no_type)"
  by (simp add: call_test_def test_candidates_def resolution_no)

lemma call_test_error:
  "address_of_member (probe_class_name m) T m = Inl e \<Longrightarrow> \<not> substitution_failure e \<Longrightarrow>
   call_test m T = Inl (IllFormed e)"
  by (simp add: call_test_def test_candidates_def)

lemma value_well_formed:
  "address_of_member (probe_class_name m) T m = Inr p \<Longrightarrow>
   temp_has_member_value abi m T = Inr True"
  by (simp add: temp_has_member_value_def call_test_well_formed)

lemma value_ill_formed:
  "address_of_member (probe_class_name m) T m = Inl e \<Longrightarrow> substitution_failure e \<Longrightarrow>
   temp_has_member_value abi m T = Inr (sizeof_long abi = 1)"
  by (simp add: temp_has_member_value_def call_test_failure yes_type_def no_type_def)

lemma value_error:
  "address_of_member (probe_class_name m) T m = Inl e \<Longrightarrow> \<not> substitution_failure e \<Longrightarrow>
   temp_has_member_value abi m T = Inl (IllFormed e)"
  by (simp add: temp_has_member_value_def call_test_error)

lemma registered_value:
  "registered sc m \<Longrightarrow> temp_has_member abi sc T m = temp_has_member_value abi m T"
  by (simp add: temp_has_member_def registered_def)

subsection \<open>Lookup\<close>


lemma lookup_member_empty: "lookup_member ms m = [] \<longleftrightarrow> members_named ms m = []"
  by (auto simp: lookup_member_def Let_def)

lemma single_declaration:
  "members_named ms m = [d] \<Longrightarrow> lookup_member ms m = [d]"
  by (simp add: lookup_member_def Let_def)

lemma find_member_own:
  "lookup_member ms m \<noteq> [] \<Longrightarrow>
   find_member (Class cn fr inh ms) m = (cn, lookup_member ms m)"
  by (cases inh) auto

lemma find_member_base:
  "lookup_member ms m = [] \<Longrightarrow>
   find_member (Class cn fr (Base ba bt) ms) m = find_member bt m"
  by simp

lemma accessible_at_own:
  "lookup_member ms m = d # ds \<Longrightarrow>
   accessible_at ctx (Class cn fr inh ms) m = accessible ctx fr (member_access d)"
  by (cases inh) auto

lemma find_member_none:
  "\<not> has_member_named T m \<Longrightarrow> snd (find_member T m) = []"
  by (induction T m rule: has_member_named.induct) (auto simp: lookup_member_empty)

lemma not_found_ill_formed:
  assumes "\<not> has_member_named T m"
  shows "\<exists>e. address_of_member ctx T m = Inl e \<and> substitution_failure e"
proof (cases T)
  case (Class cn fr inh ms)
  with find_member_none [OF assms] show ?thesis
    by (cases "find_member (Class cn fr inh ms) m") auto
next
  case (Enumeration en es)
  with assms show ?thesis by simp
qed auto

lemma addressable_iff:
  "addressable k \<longleftrightarrow> (\<exists>p. address_of_declaration cn k = Inr p)"
  by (induction k rule: addressable.induct) auto

lemma addressable_no_type: "addressable (member_kind_of d) \<Longrightarrow> \<not> names_a_type d"
  by (induction d rule: names_a_type.induct) auto

lemma address_well_formed_iff:
  "address_well_formed ctx T m \<longleftrightarrow> (\<exists>p. address_of_member ctx T m = Inr p)"
proof (cases T)
  case (Class cn fr inh ms)
  obtain dc ds where f: "find_member (Class cn fr inh ms) m = (dc, ds)"
    by (cases "find_member (Class cn fr inh ms) m") auto
  show ?thesis
  proof (cases ds rule: remdups_adj.cases)
    case 1
    with Class f show ?thesis
      by (simp add: address_well_formed_def)
  next
    case (2 d)
    show ?thesis
    proof (cases "names_a_type d")
      case True
      with addressable_no_type [of d] Class f 2 show ?thesis
        by (auto simp: address_well_formed_def)
    next
      case False
      with Class f 2 addressable_iff [of "member_kind_of d" dc] show ?thesis
        by (auto simp: address_well_formed_def)
    qed
  next
    case (3 d e es)
    with Class f show ?thesis
      by (simp add: address_well_formed_def)
  qed
qed (simp_all add: address_well_formed_def)

lemma single_addressable_well_formed:
  assumes "lookup_member ms m = [Member n a k]" and "accessible ctx fr a" and "addressable k"
  shows "\<exists>p. address_of_member ctx (Class cn fr inh ms) m = Inr p"
proof -
  have "find_member (Class cn fr inh ms) m = (cn, [Member n a k])"
    using assms(1) find_member_own [of ms m cn fr inh] by simp
  moreover have "accessible_at ctx (Class cn fr inh ms) m"
    using assms(1,2) accessible_at_own [of ms m "Member n a k" "[]" ctx cn fr inh] by simp
  ultimately have "address_well_formed ctx (Class cn fr inh ms) m"
    using assms(3) by (simp add: address_well_formed_def)
  then show ?thesis
    by (simp only: address_well_formed_iff)
qed


lemma value_is_well_formed:
  assumes "sizeof_long abi \<noteq> 1" and "\<not> has_enumerator T m"
  shows "temp_has_member_value abi m T =
         Inr (address_well_formed (probe_class_name m) T m)"
proof (cases "address_of_member (probe_class_name m) T m")
  case (Inl e)
  then have "\<not> address_well_formed (probe_class_name m) T m"
    by (simp add: address_well_formed_iff)
  moreover have "substitution_failure e"
    using address_of_member_failure [OF Inl assms(2)] .
  ultimately show ?thesis
    using Inl assms(1) by (simp add: value_ill_formed)
next
  case (Inr p)
  then have "address_well_formed (probe_class_name m) T m"
    by (simp add: address_well_formed_iff)
  with Inr show ?thesis
    by (simp add: value_well_formed)
qed

lemma functions_not_hidden:
  "list_all is_function ds \<Longrightarrow> filter (\<lambda>d. \<not> names_a_type d) ds = ds"
proof (induction ds)
  case Nil
  then show ?case by simp
next
  case (Cons d ds)
  obtain n a k where "d = Member n a k"
    by (cases d) auto
  with Cons show ?case
    by (cases k) auto
qed

lemma overloaded_not_well_formed:
  assumes "2 \<le> length (members_named ms m)" and "list_all is_function (members_named ms m)"
  shows "\<not> address_well_formed ctx (Class cn fr inh ms) m"
proof -
  have l: "lookup_member ms m = members_named ms m"
    using assms by (auto simp: lookup_member_def Let_def functions_not_hidden)
  obtain d e ds where d: "members_named ms m = d # e # ds"
    using assms(1) by (cases "members_named ms m" rule: remdups_adj.cases) auto
  have "find_member (Class cn fr inh ms) m = (cn, d # e # ds)"
    using find_member_own [of ms m cn fr inh] l d by simp
  then show ?thesis
    by (simp add: address_well_formed_def)
qed

lemma types_only_not_well_formed:
  assumes "members_named ms m \<noteq> []" and "list_all names_a_type (members_named ms m)"
  shows "\<not> address_well_formed ctx (Class cn fr inh ms) m"
proof -
  have l: "lookup_member ms m = members_named ms m"
    using assms(2) by (auto simp: lookup_member_def Let_def list_all_iff filter_empty_conv)
  then have f: "find_member (Class cn fr inh ms) m = (cn, members_named ms m)"
    using find_member_own [of ms m cn fr inh] assms(1) by simp
  show ?thesis
  proof (cases "members_named ms m" rule: remdups_adj.cases)
    case 1
    with assms(1) show ?thesis by simp
  next
    case (2 d)
    with assms(2) have "\<not> addressable (member_kind_of d)"
      using addressable_no_type [of d] by auto
    with f 2 show ?thesis
      by (simp add: address_well_formed_def)
  next
    case (3 d e ds)
    with f show ?thesis
      by (simp add: address_well_formed_def)
  qed
qed

lemma single_not_addressable:
  assumes "members_named ms m = [Member n a k]" and "\<not> addressable k"
  shows "\<not> address_well_formed ctx (Class cn fr inh ms) m"
proof -
  have "find_member (Class cn fr inh ms) m = (cn, [Member n a k])"
    using find_member_own [of ms m cn fr inh] single_declaration [OF assms(1)] by simp
  with assms(2) show ?thesis
    by (simp add: address_well_formed_def)
qed

lemma single_public_addressable:
  assumes "members_named ms m = [Member n Public k]" and "addressable k"
  shows "address_well_formed ctx (Class cn fr inh ms) m"
proof -
  have l: "lookup_member ms m = [Member n Public k]"
    using single_declaration [OF assms(1)] .
  then have "find_member (Class cn fr inh ms) m = (cn, [Member n Public k])"
    using find_member_own [of ms m cn fr inh] by simp
  moreover have "accessible_at ctx (Class cn fr inh ms) m"
    using accessible_at_own [OF l] by (simp add: accessible_def)
  ultimately show ?thesis
    using assms(2) by (simp add: address_well_formed_def)
qed

lemma inherited_public_addressable:
  assumes "members_named ms m = []"
    and "members_named bms m = [Member n Public k]" and "addressable k"
  shows "address_well_formed ctx
           (Class cn fr (Base Public (Class bn bfr binh bms)) ms) m"
proof -
  have own: "lookup_member ms m = []"
    using assms(1) by (simp add: lookup_member_empty)
  have b: "address_well_formed ctx (Class bn bfr binh bms) m"
    using single_public_addressable [OF assms(2,3)] .
  have f: "find_member (Class cn fr (Base Public (Class bn bfr binh bms)) ms) m =
           find_member (Class bn bfr binh bms) m"
    using own by simp
  have "accessible_at ctx (Class bn bfr binh bms) m"
    using b by (auto simp: address_well_formed_def split: list.splits)
  then have "accessible_at ctx (Class cn fr (Base Public (Class bn bfr binh bms)) ms) m"
    using own by (simp add: accessible_def)
  with b f show ?thesis
    by (auto simp: address_well_formed_def split: list.splits)
qed

subsection \<open>The demonstration program\<close>

lemma heading_of_CubeSphereObject:
  "registered sc ''heading'' \<Longrightarrow>
   temp_has_member abi sc CubeSphereObject ''heading'' = Inr True"
  by (simp add: CubeSphereObject_def registered_value value_well_formed lookup_member_def
      members_named_def accessible_def)

lemma heading_of_B:
  "registered sc ''heading'' \<Longrightarrow> temp_has_member abi sc B ''heading'' = Inr True"
  by (simp add: B_def registered_value value_well_formed lookup_member_def
      members_named_def accessible_def)

lemma heading_of_C:
  "registered sc ''heading'' \<Longrightarrow>
   temp_has_member abi sc C ''heading'' = Inr (sizeof_long abi = 1)"
  by (simp add: C_def registered_value value_ill_formed lookup_member_def members_named_def)

lemma value_type_of_vector: "nested_type ''test'' (std_vector X) ''value_type'' = Inr X"
  by (simp add: std_vector_def lookup_member_def members_named_def accessible_def)

lemma test_constructor_vector:
  "test_constructor abi sc (std_vector X) os =
     (case temp_has_member abi sc X ''heading'' of
        Inl e \<Rightarrow> Inl e
      | Inr b \<Rightarrow> Inr (endl (endl (put_bool b (put_string ''has_member(T, heading) '' os)))))"
  by (simp add: test_constructor_def value_type_of_vector)

lemma scope_of_program:
  "DEFINE_has_member ''heading'' [] = Inr [probe_class_name ''heading'']"
  by (simp add: DEFINE_has_member_def)

lemma registered_in_program: "registered [probe_class_name ''heading''] ''heading''"
  by (simp add: registered_def)

lemma program_written:
  "program abi =
     Inr (0, \<lparr>written =
                ''has_member(T, heading) 1\<newline>\<newline>has_member(T, heading) 1\<newline>\<newline>has_member(T, heading) ''
                @ (if sizeof_long abi = 1 then ''1'' else ''0'') @ ''\<newline>\<newline>'',
              boolalpha = False\<rparr>)"
  by (simp add: program_def main_def scope_of_program test_constructor_vector
      registered_in_program heading_of_CubeSphereObject heading_of_B heading_of_C
      cout_at_start_def put_string_def put_bool_def endl_def)

subsection \<open>Registration\<close>

lemma DEFINE_all_append:
  "DEFINE_all (xs @ ys) sc =
     (case DEFINE_all xs sc of Inl e \<Rightarrow> Inl e | Inr sc' \<Rightarrow> DEFINE_all ys sc')"
  by (induction xs arbitrary: sc) (auto split: sum.splits)

lemma DEFINE_all_keeps:
  "DEFINE_all ms sc = Inr sc' \<Longrightarrow> set sc \<subseteq> set sc'"
proof (induction ms arbitrary: sc)
  case Nil
  then show ?case by simp
next
  case (Cons m ms)
  then obtain sc1 where 1: "DEFINE_has_member m sc = Inr sc1" and 2: "DEFINE_all ms sc1 = Inr sc'"
    by (auto split: sum.splits)
  from 1 have "set sc \<subseteq> set sc1"
    by (auto simp: DEFINE_has_member_def split: if_splits)
  with Cons.IH [OF 2] show ?case
    by blast
qed

lemma DEFINE_all_error:
  "DEFINE_all ms sc = Inl e \<Longrightarrow> \<exists>m \<in> set ms. e = Redefinition (probe_class_name m)"
proof (induction ms arbitrary: sc)
  case Nil
  then show ?case by simp
next
  case (Cons m ms)
  then show ?case
    by (auto simp: DEFINE_has_member_def split: sum.splits if_splits)
qed

lemma DEFINE_registers:
  "DEFINE_has_member m sc = Inr sc' \<Longrightarrow> probe_class_name m \<in> set sc'"
  by (auto simp: DEFINE_has_member_def split: if_splits)

lemma probe_class_name_inj: "probe_class_name m = probe_class_name n \<longleftrightarrow> m = n"
  by (simp add: probe_class_name_def)

lemma DEFINE_all_distinct:
  "(\<exists>sc'. DEFINE_all ms sc = Inr sc') \<longleftrightarrow>
   distinct ms \<and> (\<forall>m \<in> set ms. probe_class_name m \<notin> set sc)"
proof (induction ms arbitrary: sc)
  case Nil
  then show ?case by simp
next
  case (Cons m ms)
  show ?case
  proof (cases "probe_class_name m \<in> set sc")
    case True
    then show ?thesis
      by (simp add: DEFINE_has_member_def)
  next
    case False
    then have "DEFINE_all (m # ms) sc = DEFINE_all ms (probe_class_name m # sc)"
      by (simp add: DEFINE_has_member_def)
    with False Cons.IH [of "probe_class_name m # sc"] show ?thesis
      by (auto simp: probe_class_name_inj)
  qed
qed

section \<open>The properties\<close>

text \<open>
  C1, as amended. When the name \<open>m\<close>, looked up in a complete class, finds exactly one
  declaration, which the probe may access and whose address can be taken (a non-static
  data member that is neither a reference nor a bit-field, a static data member, or a
  member function that is not overloaded), the query \<^verbatim>\<open>temp_has_member(T, m)\<close> for a
  registered \<open>m\<close> evaluates to true, on every implementation and whatever the class is
  derived from.
\<close>

theorem addressable_member_true:
  assumes "registered sc m"
    and "lookup_member ms m = [Member n a k]"
    and "accessible (probe_class_name m) fr a"
    and "addressable k"
  shows "temp_has_member abi sc (Class cn fr inh ms) m = Inr True"
proof -
  obtain p where "address_of_member (probe_class_name m) (Class cn fr inh ms) m = Inr p"
    using single_addressable_well_formed [OF assms(2,3,4)] by blast
  then show ?thesis
    using assms(1) by (simp add: registered_value value_well_formed)
qed

theorem addressable_member_true_witness:
  "registered [probe_class_name ''heading''] ''heading'' \<and>
   lookup_member [Member ''heading'' Public (DataMember (Fundamental BoolT))] ''heading'' =
     [Member ''heading'' Public (DataMember (Fundamental BoolT))] \<and>
   accessible (probe_class_name ''heading'') [] Public \<and>
   addressable (DataMember (Fundamental BoolT)) \<and>
   temp_has_member lp64 [probe_class_name ''heading'']
     (Class ''B'' [] NoBase [Member ''heading'' Public (DataMember (Fundamental BoolT))])
     ''heading'' = Inr True"
proof -
  have r: "registered [probe_class_name ''heading''] ''heading''"
    by (simp add: registered_def)
  have l: "lookup_member [Member ''heading'' Public (DataMember (Fundamental BoolT))] ''heading'' =
     [Member ''heading'' Public (DataMember (Fundamental BoolT))]"
    by (simp add: lookup_member_def members_named_def)
  have a: "accessible (probe_class_name ''heading'') [] Public"
    by (simp add: accessible_def)
  have k: "addressable (DataMember (Fundamental BoolT))"
    by simp
  show ?thesis
    using r l a k addressable_member_true [OF r l a k, of lp64 "''B''" NoBase] by simp
qed

text \<open>
  C1 as stated fails for a member of the kind "nested type": the class
  \<^verbatim>\<open>struct T { typedef int heading; };\<close> declares an accessible member named
  \<^verbatim>\<open>heading\<close>, and the query evaluates to false.
\<close>

theorem nested_type_counterexample:
  "declares_accessible_member (probe_class_name ''heading'')
     (Class ''T'' [] NoBase [Member ''heading'' Public (NestedType (Fundamental IntT))])
     ''heading'' \<and>
   registered [probe_class_name ''heading''] ''heading'' \<and>
   temp_has_member lp64 [probe_class_name ''heading'']
     (Class ''T'' [] NoBase [Member ''heading'' Public (NestedType (Fundamental IntT))])
     ''heading'' = Inr False"
  by (simp add: registered_def registered_value value_ill_formed lookup_member_def
      members_named_def accessible_def lp64_def)

text \<open>
  C2, as amended. For every type that has no member named \<open>m\<close>, neither declared nor
  inherited from a base class (a class without such a member, an enumeration without such
  an enumerator, or a type that is neither), the query \<^verbatim>\<open>temp_has_member(T, m)\<close> for a
  registered \<open>m\<close> evaluates to false, and it does so because the call \<^verbatim>\<open>test<T>(0)\<close>
  selects the fallback \<^verbatim>\<open>test(...)\<close>. The implementation is one where
  \<^verbatim>\<open>sizeof(long)\<close> differs from \<^verbatim>\<open>sizeof(char)\<close>, which is 1.
\<close>

theorem no_member_false:
  assumes "registered sc m" and "sizeof_long abi \<noteq> 1" and "\<not> has_member_named T m"
  shows "temp_has_member abi sc T m = Inr False \<and>
         call_test m T = Inr (Candidate Ellipsis no_type)"
proof -
  obtain e where e: "address_of_member (probe_class_name m) T m = Inl e"
    and s: "substitution_failure e"
    using not_found_ill_formed [OF assms(3)] by blast
  have "temp_has_member abi sc T m = Inr False"
    using assms(1,2) e s by (simp add: registered_value value_ill_formed)
  moreover have "call_test m T = Inr (Candidate Ellipsis no_type)"
    using e s by (rule call_test_failure)
  ultimately show ?thesis by simp
qed

theorem no_member_false_witness:
  "registered [probe_class_name ''heading''] ''heading'' \<and> sizeof_long lp64 \<noteq> 1 \<and>
   \<not> has_member_named C ''heading'' \<and>
   temp_has_member lp64 [probe_class_name ''heading''] C ''heading'' = Inr False \<and>
   call_test ''heading'' C = Inr (Candidate Ellipsis no_type)"
proof -
  have r: "registered [probe_class_name ''heading''] ''heading''"
    by (simp add: registered_def)
  have s: "sizeof_long lp64 \<noteq> 1"
    by (simp add: lp64_def)
  have d: "\<not> has_member_named C ''heading''"
    by (simp add: C_def members_named_def)
  show ?thesis
    using r s d no_member_false [OF r s d] by simp
qed

text \<open>
  C2 as stated fails for a class that declares no member of the name and inherits one:
  \<^verbatim>\<open>struct D1 : CubeSphereObject {};\<close> declares no member named \<^verbatim>\<open>heading\<close>, yet
  \<^verbatim>\<open>&D1::heading\<close> is the well-formed pointer to the member of the base class, and the
  query evaluates to true.
\<close>

theorem inherited_member_counterexample:
  "\<not> declares_member (Class ''D1'' [] (Base Public CubeSphereObject) []) ''heading'' \<and>
   registered [probe_class_name ''heading''] ''heading'' \<and>
   sizeof_long lp64 \<noteq> 1 \<and>
   temp_has_member lp64 [probe_class_name ''heading'']
     (Class ''D1'' [] (Base Public CubeSphereObject) []) ''heading'' = Inr True"
  by (simp add: registered_def registered_value value_well_formed CubeSphereObject_def
      lookup_member_def members_named_def accessible_def lp64_def)

text \<open>
  C3, as amended. The check is exact in the name, and among members whose address can be
  taken it ignores the member's type: for a class in which \<open>N\<close> finds exactly one
  accessible declaration whose address can be taken and which has no member named \<open>M\<close>,
  neither declared nor inherited, the query for \<open>M\<close> is false and the query for \<open>N\<close> is
  true. For a class with the one member \<^verbatim>\<open>double heading\<close> the query for
  \<^verbatim>\<open>heading\<close> is true, with the one member \<^verbatim>\<open>bool headings\<close> it is false, with the
  one member \<^verbatim>\<open>bool heading\<close> it is true. The false results are for an implementation
  where \<^verbatim>\<open>sizeof(long)\<close> is not 1.
\<close>

theorem name_exact:
  assumes "sizeof_long abi \<noteq> 1"
    and "registered sc M" and "registered sc N"
    and "\<not> has_member_named (Class cn fr inh ms) M"
    and "lookup_member ms N = [Member n a k]"
    and "accessible (probe_class_name N) fr a"
    and "addressable k"
    and "registered sc' ''heading''"
  shows "temp_has_member abi sc (Class cn fr inh ms) M = Inr False \<and>
         temp_has_member abi sc (Class cn fr inh ms) N = Inr True \<and>
         temp_has_member abi sc'
           (Class cn1 fr1 NoBase [Member ''heading'' Public (DataMember (Fundamental DoubleT))])
           ''heading'' = Inr True \<and>
         temp_has_member abi sc'
           (Class cn2 fr2 NoBase [Member ''headings'' Public (DataMember (Fundamental BoolT))])
           ''heading'' = Inr False \<and>
         temp_has_member abi sc'
           (Class cn3 fr3 NoBase [Member ''heading'' Public (DataMember (Fundamental BoolT))])
           ''heading'' = Inr True"
proof -
  obtain e where "address_of_member (probe_class_name M) (Class cn fr inh ms) M = Inl e"
    and "substitution_failure e"
    using not_found_ill_formed [OF assms(4)] by blast
  then have m: "temp_has_member abi sc (Class cn fr inh ms) M = Inr False"
    using assms(1,2) by (simp add: registered_value value_ill_formed)
  obtain p where "address_of_member (probe_class_name N) (Class cn fr inh ms) N = Inr p"
    using single_addressable_well_formed [OF assms(5,6,7)] by blast
  then have n: "temp_has_member abi sc (Class cn fr inh ms) N = Inr True"
    using assms(3) by (simp add: registered_value value_well_formed)
  have d: "temp_has_member abi sc'
      (Class cn1 fr1 NoBase [Member ''heading'' Public (DataMember (Fundamental DoubleT))])
      ''heading'' = Inr True"
    using assms(8)
    by (simp add: registered_value value_well_formed lookup_member_def members_named_def
        accessible_def)
  have hs: "temp_has_member abi sc'
      (Class cn2 fr2 NoBase [Member ''headings'' Public (DataMember (Fundamental BoolT))])
      ''heading'' = Inr False"
    using assms(1,8)
    by (simp add: registered_value value_ill_formed lookup_member_def members_named_def)
  have b: "temp_has_member abi sc'
      (Class cn3 fr3 NoBase [Member ''heading'' Public (DataMember (Fundamental BoolT))])
      ''heading'' = Inr True"
    using assms(8)
    by (simp add: registered_value value_well_formed lookup_member_def members_named_def
        accessible_def)
  show ?thesis
    using m n d hs b by (intro conjI)
qed

theorem name_exact_witness:
  "sizeof_long lp64 \<noteq> 1 \<and>
   registered [probe_class_name ''headings'', probe_class_name ''heading''] ''heading'' \<and>
   registered [probe_class_name ''headings'', probe_class_name ''heading''] ''headings'' \<and>
   \<not> has_member_named C ''heading'' \<and>
   lookup_member [Member ''headings'' Public (DataMember (Fundamental BoolT))] ''headings'' =
     [Member ''headings'' Public (DataMember (Fundamental BoolT))] \<and>
   accessible (probe_class_name ''headings'') [] Public \<and>
   addressable (DataMember (Fundamental BoolT)) \<and>
   temp_has_member lp64 [probe_class_name ''headings'', probe_class_name ''heading''] C
     ''heading'' = Inr False \<and>
   temp_has_member lp64 [probe_class_name ''headings'', probe_class_name ''heading''] C
     ''headings'' = Inr True \<and>
   temp_has_member lp64 [probe_class_name ''headings'', probe_class_name ''heading'']
     CubeSphereObject ''heading'' = Inr True \<and>
   temp_has_member lp64 [probe_class_name ''headings'', probe_class_name ''heading''] B
     ''heading'' = Inr True"
proof -
  let ?sc = "[probe_class_name ''headings'', probe_class_name ''heading'']"
  let ?ms = "[Member ''headings'' Public (DataMember (Fundamental BoolT))]"
  have s: "sizeof_long lp64 \<noteq> 1"
    by (simp add: lp64_def)
  have r1: "registered ?sc ''heading''"
    by (simp add: registered_def)
  have r2: "registered ?sc ''headings''"
    by (simp add: registered_def)
  have m: "\<not> has_member_named (Class ''C'' [] NoBase ?ms) ''heading''"
    by (simp add: members_named_def)
  have l: "lookup_member ?ms ''headings'' = ?ms"
    by (simp add: lookup_member_def members_named_def)
  have a: "accessible (probe_class_name ''headings'') [] Public"
    by (simp add: accessible_def)
  have k: "addressable (DataMember (Fundamental BoolT))"
    by simp
  note th = name_exact [OF s r1 r2 m l a k r1, of "''B''" "[]" "''C''" "[]" "''B''" "[]"]
  have c: "temp_has_member lp64 ?sc CubeSphereObject ''heading'' = Inr True"
    using r1 by (rule heading_of_CubeSphereObject)
  show ?thesis
    using s r1 r2 m l a k c th by (simp add: B_def C_def)
qed

text \<open>
  C3 as stated fails where the member's own type is a reference:
  \<^verbatim>\<open>struct R { double& heading; };\<close> declares \<^verbatim>\<open>heading\<close> and not \<^verbatim>\<open>headings\<close>, and
  the query for \<^verbatim>\<open>heading\<close> is false, while it is true for the same class with
  \<^verbatim>\<open>double heading\<close>.
\<close>

theorem reference_member_counterexample:
  "declares_member
     (Class ''R'' [] NoBase
        [Member ''heading'' Public (DataMember (LvalueRef (Fundamental DoubleT)))])
     ''heading'' \<and>
   \<not> declares_member
     (Class ''R'' [] NoBase
        [Member ''heading'' Public (DataMember (LvalueRef (Fundamental DoubleT)))])
     ''headings'' \<and>
   temp_has_member lp64 [probe_class_name ''headings'', probe_class_name ''heading'']
     (Class ''R'' [] NoBase
        [Member ''heading'' Public (DataMember (LvalueRef (Fundamental DoubleT)))])
     ''heading'' = Inr False \<and>
   temp_has_member lp64 [probe_class_name ''headings'', probe_class_name ''heading'']
     (Class ''R'' [] NoBase [Member ''heading'' Public (DataMember (Fundamental DoubleT))])
     ''heading'' = Inr True"
  by (simp add: registered_def registered_value value_ill_formed value_well_formed
      lookup_member_def members_named_def accessible_def lp64_def)



text \<open>
  C5, as amended. For a registered \<open>m\<close> and every type but an enumeration with an
  enumerator \<open>m\<close>, the value of the probe is exactly the well-formedness of \<^verbatim>\<open>&T::m\<close>
  written inside the probe's class (where \<^verbatim>\<open>sizeof(long)\<close> is not 1). In particular it
  is false for a class whose member \<open>m\<close> is a set of two or more overloaded member
  functions, is only a nested type, is a data member of reference type, or is a
  bit-field; and it is true for a class whose one member \<open>m\<close> is a public data member of
  fundamental type, a public static data member, a public member function or a public
  static member function, and for a class publicly derived from a class with such a
  data member.
\<close>

theorem value_is_address_well_formedness:
  assumes "registered sc m" and "sizeof_long abi \<noteq> 1"
  shows "(\<not> has_enumerator T m \<longrightarrow>
            temp_has_member abi sc T m =
              Inr (address_well_formed (probe_class_name m) T m)) \<and>
         (\<forall>cn fr inh ms. 2 \<le> length (members_named ms m) \<and>
              list_all is_function (members_named ms m) \<longrightarrow>
            temp_has_member abi sc (Class cn fr inh ms) m = Inr False) \<and>
         (\<forall>cn fr inh ms. members_named ms m \<noteq> [] \<and>
              list_all names_a_type (members_named ms m) \<longrightarrow>
            temp_has_member abi sc (Class cn fr inh ms) m = Inr False) \<and>
         (\<forall>cn fr inh ms n a t.
            members_named ms m = [Member n a (DataMember (LvalueRef t))] \<longrightarrow>
            temp_has_member abi sc (Class cn fr inh ms) m = Inr False) \<and>
         (\<forall>cn fr inh ms n a t w. members_named ms m = [Member n a (BitField t w)] \<longrightarrow>
            temp_has_member abi sc (Class cn fr inh ms) m = Inr False) \<and>
         (\<forall>cn fr inh ms n f.
            members_named ms m = [Member n Public (DataMember (Fundamental f))] \<longrightarrow>
            temp_has_member abi sc (Class cn fr inh ms) m = Inr True) \<and>
         (\<forall>cn fr inh ms n t. members_named ms m = [Member n Public (StaticDataMember t)] \<longrightarrow>
            temp_has_member abi sc (Class cn fr inh ms) m = Inr True) \<and>
         (\<forall>cn fr inh ms n r ps.
            members_named ms m = [Member n Public (MemberFunction r ps)] \<longrightarrow>
            temp_has_member abi sc (Class cn fr inh ms) m = Inr True) \<and>
         (\<forall>cn fr inh ms n r ps.
            members_named ms m = [Member n Public (StaticMemberFunction r ps)] \<longrightarrow>
            temp_has_member abi sc (Class cn fr inh ms) m = Inr True) \<and>
         (\<forall>cn fr ms bn bfr binh bms n f. members_named ms m = [] \<and>
              members_named bms m = [Member n Public (DataMember (Fundamental f))] \<longrightarrow>
            temp_has_member abi sc (Class cn fr (Base Public (Class bn bfr binh bms)) ms) m =
              Inr True)"
proof -
  have v: "temp_has_member abi sc U m = Inr (address_well_formed (probe_class_name m) U m)"
    if "\<not> has_enumerator U m" for U
    using assms that by (simp add: registered_value value_is_well_formed)
  have no: "temp_has_member abi sc (Class cn fr inh ms) m = Inr False"
    if "\<not> address_well_formed (probe_class_name m) (Class cn fr inh ms) m" for cn fr inh ms
    using that v [of "Class cn fr inh ms"] by simp
  have yes: "temp_has_member abi sc (Class cn fr inh ms) m = Inr True"
    if "address_well_formed (probe_class_name m) (Class cn fr inh ms) m" for cn fr inh ms
    using that v [of "Class cn fr inh ms"] by simp
  have ovl: "temp_has_member abi sc (Class cn fr inh ms) m = Inr False"
    if "2 \<le> length (members_named ms m)" "list_all is_function (members_named ms m)"
    for cn fr inh ms
    using overloaded_not_well_formed [OF that] by (rule no)
  have only_types: "temp_has_member abi sc (Class cn fr inh ms) m = Inr False"
    if "members_named ms m \<noteq> []" "list_all names_a_type (members_named ms m)"
    for cn fr inh ms
    using types_only_not_well_formed [OF that] by (rule no)
  have refm: "temp_has_member abi sc (Class cn fr inh ms) m = Inr False"
    if "members_named ms m = [Member n a (DataMember (LvalueRef t))]"
    for cn fr inh ms n a t
    using single_not_addressable [OF that] by (simp add: no)
  have bitf: "temp_has_member abi sc (Class cn fr inh ms) m = Inr False"
    if "members_named ms m = [Member n a (BitField t w)]"
    for cn fr inh ms n a t w
    using single_not_addressable [OF that] by (simp add: no)
  have pub: "temp_has_member abi sc (Class cn fr inh ms) m = Inr True"
    if "members_named ms m = [Member n Public k]" "addressable k"
    for cn fr inh ms n k
    using single_public_addressable [OF that] by (rule yes)
  have inherited: "temp_has_member abi sc
      (Class cn fr (Base Public (Class bn bfr binh bms)) ms) m = Inr True"
    if "members_named ms m = []"
      "members_named bms m = [Member n Public (DataMember (Fundamental f))]"
    for cn fr ms bn bfr binh bms n f
    using inherited_public_addressable [OF that] by (simp add: yes)
  show ?thesis
    using v ovl only_types refm bitf pub inherited
    by (intro conjI allI impI; (elim conjE)?) simp_all
qed

theorem value_is_address_well_formedness_witness:
  "registered [probe_class_name ''heading''] ''heading'' \<and> sizeof_long lp64 \<noteq> 1 \<and>
   \<not> has_enumerator B ''heading'' \<and>
   temp_has_member lp64 [probe_class_name ''heading''] B ''heading'' =
     Inr (address_well_formed (probe_class_name ''heading'') B ''heading'') \<and>
   temp_has_member lp64 [probe_class_name ''heading'']
     (Class ''O'' [] NoBase
        [Member ''heading'' Public (MemberFunction VoidT []),
         Member ''heading'' Public (MemberFunction VoidT [Fundamental IntT])]) ''heading'' =
     Inr False \<and>
   temp_has_member lp64 [probe_class_name ''heading'']
     (Class ''N'' [] NoBase [Member ''heading'' Public (NestedType (Fundamental IntT))])
     ''heading'' = Inr False \<and>
   temp_has_member lp64 [probe_class_name ''heading'']
     (Class ''R'' [] NoBase
        [Member ''heading'' Public (DataMember (LvalueRef (Fundamental DoubleT)))])
     ''heading'' = Inr False \<and>
   temp_has_member lp64 [probe_class_name ''heading'']
     (Class ''F'' [] NoBase [Member ''heading'' Public (BitField (Fundamental IntT) 3)])
     ''heading'' = Inr False \<and>
   temp_has_member lp64 [probe_class_name ''heading'']
     (Class ''B'' [] NoBase [Member ''heading'' Public (DataMember (Fundamental BoolT))])
     ''heading'' = Inr True \<and>
   temp_has_member lp64 [probe_class_name ''heading'']
     (Class ''S'' [] NoBase [Member ''heading'' Public (StaticDataMember (Fundamental IntT))])
     ''heading'' = Inr True \<and>
   temp_has_member lp64 [probe_class_name ''heading'']
     (Class ''M'' [] NoBase [Member ''heading'' Public (MemberFunction VoidT [])])
     ''heading'' = Inr True \<and>
   temp_has_member lp64 [probe_class_name ''heading'']
     (Class ''G'' [] NoBase [Member ''heading'' Public (StaticMemberFunction VoidT [])])
     ''heading'' = Inr True \<and>
   temp_has_member lp64 [probe_class_name ''heading'']
     (Class ''D1'' [] (Base Public
        (Class ''B'' [] NoBase [Member ''heading'' Public (DataMember (Fundamental BoolT))])) [])
     ''heading'' = Inr True"
proof -
  let ?sc = "[probe_class_name ''heading'']"
  let ?ovl = "[Member ''heading'' Public (MemberFunction VoidT []),
               Member ''heading'' Public (MemberFunction VoidT [Fundamental IntT])]"
  let ?ty = "[Member ''heading'' Public (NestedType (Fundamental IntT))]"
  let ?rf = "[Member ''heading'' Public (DataMember (LvalueRef (Fundamental DoubleT)))]"
  let ?bf = "[Member ''heading'' Public (BitField (Fundamental IntT) 3)]"
  let ?dm = "[Member ''heading'' Public (DataMember (Fundamental BoolT))]"
  let ?sd = "[Member ''heading'' Public (StaticDataMember (Fundamental IntT))]"
  let ?mf = "[Member ''heading'' Public (MemberFunction VoidT [])]"
  let ?sf = "[Member ''heading'' Public (StaticMemberFunction VoidT [])]"
  have r: "registered ?sc ''heading''"
    by (simp add: registered_def)
  have s: "sizeof_long lp64 \<noteq> 1"
    by (simp add: lp64_def)
  have e: "\<not> has_enumerator B ''heading''"
    by (simp add: B_def)
  note th = value_is_address_well_formedness [OF r s, of B]
  note c1 = th [THEN conjunct1]
  note c2 = th [THEN conjunct2, THEN conjunct1]
  note c3 = th [THEN conjunct2, THEN conjunct2, THEN conjunct1]
  note c4 = th [THEN conjunct2, THEN conjunct2, THEN conjunct2, THEN conjunct1]
  note c5 = th [THEN conjunct2, THEN conjunct2, THEN conjunct2, THEN conjunct2, THEN conjunct1]
  note c6 = th [THEN conjunct2, THEN conjunct2, THEN conjunct2, THEN conjunct2, THEN conjunct2,
      THEN conjunct1]
  note c7 = th [THEN conjunct2, THEN conjunct2, THEN conjunct2, THEN conjunct2, THEN conjunct2,
      THEN conjunct2, THEN conjunct1]
  note c8 = th [THEN conjunct2, THEN conjunct2, THEN conjunct2, THEN conjunct2, THEN conjunct2,
      THEN conjunct2, THEN conjunct2, THEN conjunct1]
  note c9 = th [THEN conjunct2, THEN conjunct2, THEN conjunct2, THEN conjunct2, THEN conjunct2,
      THEN conjunct2, THEN conjunct2, THEN conjunct2, THEN conjunct1]
  note c10 = th [THEN conjunct2, THEN conjunct2, THEN conjunct2, THEN conjunct2, THEN conjunct2,
      THEN conjunct2, THEN conjunct2, THEN conjunct2, THEN conjunct2]
  from c1 e have v: "temp_has_member lp64 ?sc B ''heading'' =
     Inr (address_well_formed (probe_class_name ''heading'') B ''heading'')"
    by blast
  have o1: "2 \<le> length (members_named ?ovl ''heading'')"
    by (simp add: members_named_def)
  have o2: "list_all is_function (members_named ?ovl ''heading'')"
    by (simp add: members_named_def)
  have o: "temp_has_member lp64 ?sc (Class ''O'' [] NoBase ?ovl) ''heading'' = Inr False"
    using c2 o1 o2 by blast
  have t1: "members_named ?ty ''heading'' \<noteq> []"
    by (simp add: members_named_def)
  have t2: "list_all names_a_type (members_named ?ty ''heading'')"
    by (simp add: members_named_def)
  have t: "temp_has_member lp64 ?sc (Class ''N'' [] NoBase ?ty) ''heading'' = Inr False"
    using c3 t1 t2 by blast
  have f1: "members_named ?rf ''heading'' = ?rf"
    by (simp add: members_named_def)
  have f: "temp_has_member lp64 ?sc (Class ''R'' [] NoBase ?rf) ''heading'' = Inr False"
    using c4 f1 by blast
  have b1: "members_named ?bf ''heading'' = ?bf"
    by (simp add: members_named_def)
  have b: "temp_has_member lp64 ?sc (Class ''F'' [] NoBase ?bf) ''heading'' = Inr False"
    using c5 b1 by blast
  have d1: "members_named ?dm ''heading'' = ?dm"
    by (simp add: members_named_def)
  have d: "temp_has_member lp64 ?sc (Class ''B'' [] NoBase ?dm) ''heading'' = Inr True"
    using c6 d1 by blast
  have sd1: "members_named ?sd ''heading'' = ?sd"
    by (simp add: members_named_def)
  have sd: "temp_has_member lp64 ?sc (Class ''S'' [] NoBase ?sd) ''heading'' = Inr True"
    using c7 sd1 by blast
  have mf1: "members_named ?mf ''heading'' = ?mf"
    by (simp add: members_named_def)
  have mf: "temp_has_member lp64 ?sc (Class ''M'' [] NoBase ?mf) ''heading'' = Inr True"
    using c8 mf1 by blast
  have sf1: "members_named ?sf ''heading'' = ?sf"
    by (simp add: members_named_def)
  have sf: "temp_has_member lp64 ?sc (Class ''G'' [] NoBase ?sf) ''heading'' = Inr True"
    using c9 sf1 by blast
  have i1: "members_named [] ''heading'' = []"
    by (simp add: members_named_def)
  have i: "temp_has_member lp64 ?sc
      (Class ''D1'' [] (Base Public (Class ''B'' [] NoBase ?dm)) []) ''heading'' = Inr True"
    using c10 i1 d1 by blast
  show ?thesis
    using r s e v o t f b d sd mf sf i by (intro conjI)
qed

text \<open>
  C5 as stated fails for the enumerator of an enumeration: for
  \<^verbatim>\<open>enum Colour { red };\<close> the expression \<^verbatim>\<open>&Colour::red\<close> is ill-formed, and the query
  is not false but a build error.
\<close>

theorem enumerator_counterexample:
  "\<not> address_well_formed (probe_class_name ''red'') (Enumeration ''Colour'' [''red'']) ''red'' \<and>
   registered [probe_class_name ''red''] ''red'' \<and>
   temp_has_member lp64 [probe_class_name ''red''] (Enumeration ''Colour'' [''red'']) ''red'' =
     Inl (IllFormed EnumeratorOfEnumeration)"
  by (simp add: address_well_formed_def registered_def registered_value value_error)

text \<open>
  C6. The constructor of \<^verbatim>\<open>test<std::vector<X>>\<close> asks the probe about \<open>X\<close>, the
  vector's \<^verbatim>\<open>value_type\<close>, not about the vector. The program therefore builds, and
  writes the label followed by 1 for \<^verbatim>\<open>std::vector<CubeSphereObject>\<close>, by 1 for
  \<^verbatim>\<open>std::vector<B>\<close> and by 0 for \<^verbatim>\<open>std::vector<C>\<close>, in that order, as digits since
  \<^verbatim>\<open>boolalpha\<close> is clear (where \<^verbatim>\<open>sizeof(long)\<close> is not 1).
\<close>

theorem demonstration_output:
  assumes "sizeof_long abi \<noteq> 1"
  shows "program abi =
           Inr (0, \<lparr>written =
                      ''has_member(T, heading) 1\<newline>\<newline>has_member(T, heading) 1\<newline>\<newline>has_member(T, heading) 0\<newline>\<newline>'',
                    boolalpha = False\<rparr>) \<and>
         nested_type ''test'' (std_vector X) ''value_type'' = Inr X \<and>
         test_constructor abi sc (std_vector X) os =
           (case temp_has_member abi sc X ''heading'' of
              Inl e \<Rightarrow> Inl e
            | Inr b \<Rightarrow> Inr (endl (endl (put_bool b (put_string ''has_member(T, heading) '' os)))))"
  using assms by (simp add: program_written value_type_of_vector test_constructor_vector)

theorem demonstration_output_witness:
  "sizeof_long lp64 \<noteq> 1 \<and>
   program lp64 =
     Inr (0, \<lparr>written =
                ''has_member(T, heading) 1\<newline>\<newline>has_member(T, heading) 1\<newline>\<newline>has_member(T, heading) 0\<newline>\<newline>'',
              boolalpha = False\<rparr>) \<and>
   nested_type ''test'' (std_vector B) ''value_type'' = Inr B"
proof -
  have s: "sizeof_long lp64 \<noteq> 1"
    by (simp add: lp64_def)
  show ?thesis
    using s demonstration_output [OF s, of B] by simp
qed


text \<open>
  C8. Using \<^verbatim>\<open>DEFINE_has_member\<close> twice for the same member name in one scope does not
  build: the second use is a redefinition of the generated class
  \<^verbatim>\<open>temp_has_member_\<close>\<open>m\<close>. With other registrations in between the translation unit
  still fails with a redefinition of a generated probe class.
\<close>

theorem duplicate_registration_fails:
  "DEFINE_all [m, m] sc = Inl (Redefinition (probe_class_name m)) \<and>
   (\<exists>n. DEFINE_all (m # ms @ [m]) sc = Inl (Redefinition (probe_class_name n)))"
proof
  show "DEFINE_all [m, m] sc = Inl (Redefinition (probe_class_name m))"
    by (simp add: DEFINE_has_member_def)
next
  show "\<exists>n. DEFINE_all (m # ms @ [m]) sc = Inl (Redefinition (probe_class_name n))"
  proof (cases "DEFINE_all (m # ms) sc")
    case (Inl e)
    then obtain n where "e = Redefinition (probe_class_name n)"
      using DEFINE_all_error by blast
    with Inl have "DEFINE_all ((m # ms) @ [m]) sc = Inl (Redefinition (probe_class_name n))"
      by (simp only: DEFINE_all_append sum.case)
    then show ?thesis
      by auto
  next
    case (Inr sc2)
    then obtain sc1 where 1: "DEFINE_has_member m sc = Inr sc1" and 2: "DEFINE_all ms sc1 = Inr sc2"
      by (auto split: sum.splits)
    have "probe_class_name m \<in> set sc2"
      using DEFINE_registers [OF 1] DEFINE_all_keeps [OF 2] by blast
    then have "DEFINE_has_member m sc2 = Inl (Redefinition (probe_class_name m))"
      by (simp add: DEFINE_has_member_def)
    with Inr have "DEFINE_all ((m # ms) @ [m]) sc = Inl (Redefinition (probe_class_name m))"
      by (simp only: DEFINE_all_append sum.case DEFINE_all.simps)
    then show ?thesis
      by auto
  qed
qed

text \<open>
  C9, as amended. When the type asked about is not a complete class (an incomplete class,
  or a type that has no members at all, so that \<^verbatim>\<open>T::m\<close> is invalid) and is not an
  enumeration with an enumerator \<open>m\<close>, the query \<^verbatim>\<open>temp_has_member(T, m)\<close> for a
  registered \<open>m\<close> evaluates to false and is no build error (where \<^verbatim>\<open>sizeof(long)\<close> is
  not 1).
\<close>

theorem not_a_complete_class_false:
  assumes "registered sc m" and "sizeof_long abi \<noteq> 1"
    and "\<not> is_complete_class T" and "\<not> has_enumerator T m"
  shows "temp_has_member abi sc T m = Inr False"
proof -
  from assms(3,4) have "\<not> has_member_named T m"
    by (cases T) auto
  then obtain e where "address_of_member (probe_class_name m) T m = Inl e"
    and "substitution_failure e"
    using not_found_ill_formed by blast
  then show ?thesis
    using assms(1,2) by (simp add: registered_value value_ill_formed)
qed

theorem not_a_complete_class_false_witness:
  "registered [probe_class_name ''heading''] ''heading'' \<and> sizeof_long lp64 \<noteq> 1 \<and>
   \<not> is_complete_class (IncompleteClass ''Later'') \<and>
   \<not> has_enumerator (IncompleteClass ''Later'') ''heading'' \<and>
   temp_has_member lp64 [probe_class_name ''heading''] (IncompleteClass ''Later'') ''heading'' =
     Inr False"
proof -
  have r: "registered [probe_class_name ''heading''] ''heading''"
    by (simp add: registered_def)
  have s: "sizeof_long lp64 \<noteq> 1"
    by (simp add: lp64_def)
  have i: "\<not> is_complete_class (IncompleteClass ''Later'')"
    by simp
  have e: "\<not> has_enumerator (IncompleteClass ''Later'') ''heading''"
    by simp
  show ?thesis
    using r s i e not_a_complete_class_false [OF r s i e] by simp
qed

text \<open>
  C9 as stated fails for an enumeration with an enumerator of the name: for
  \<^verbatim>\<open>enum E { heading };\<close> the member reference \<^verbatim>\<open>&E::heading\<close> is invalid, and the
  query is a build error.
\<close>

theorem enumeration_counterexample:
  "\<not> is_complete_class (Enumeration ''E'' [''heading'']) \<and>
   registered [probe_class_name ''heading''] ''heading'' \<and>
   temp_has_member lp64 [probe_class_name ''heading''] (Enumeration ''E'' [''heading''])
     ''heading'' = Inl (IllFormed EnumeratorOfEnumeration)"
  by (simp add: registered_def registered_value value_error)

section \<open>Further properties\<close>

text \<open>
  X1. A translation unit that uses \<^verbatim>\<open>DEFINE_has_member\<close> for each name of a list builds
  exactly when the names are pairwise different: different member names never collide.
\<close>

theorem distinct_registrations_build:
  "(\<exists>sc. DEFINE_all ms [] = Inr sc) = distinct ms"
  by (simp add: DEFINE_all_distinct)
text \<open>
  X2. The probe tells its two answers apart by \<^verbatim>\<open>sizeof(char)\<close> and \<^verbatim>\<open>sizeof(long)\<close>:
  on an implementation where \<^verbatim>\<open>sizeof(long)\<close> is 1 the query is true for every type
  for which it builds.
\<close>

theorem same_size_always_true:
  assumes "sizeof_long abi = 1" and "registered sc m" and "\<not> has_enumerator T m"
  shows "temp_has_member abi sc T m = Inr True"
proof (cases "address_of_member (probe_class_name m) T m")
  case (Inl e)
  then have "substitution_failure e"
    using assms(3) by (rule address_of_member_failure)
  with Inl assms(1,2) show ?thesis
    by (simp add: registered_value value_ill_formed)
next
  case (Inr p)
  with assms(2) show ?thesis
    by (simp add: registered_value value_well_formed)
qed

theorem same_size_always_true_witness:
  "sizeof_long (lp64\<lparr>sizeof_long := 1\<rparr>) = 1 \<and>
   registered [probe_class_name ''heading''] ''heading'' \<and>
   \<not> has_enumerator C ''heading'' \<and>
   temp_has_member (lp64\<lparr>sizeof_long := 1\<rparr>) [probe_class_name ''heading''] C ''heading'' =
     Inr True"
proof -
  have s: "sizeof_long (lp64\<lparr>sizeof_long := 1\<rparr>) = 1"
    by simp
  have r: "registered [probe_class_name ''heading''] ''heading''"
    by (simp add: registered_def)
  have e: "\<not> has_enumerator C ''heading''"
    by (simp add: C_def)
  show ?thesis
    using s r e same_size_always_true [OF s r e] by simp
qed

text \<open>
  X3. A class that names the probe's class template a friend lets it find a private
  member.
\<close>

theorem friend_probe_sees_private:
  "temp_has_member abi [probe_class_name ''heading'']
     (Class ''P'' [probe_class_name ''heading''] NoBase
        [Member ''heading'' Private (DataMember (Fundamental DoubleT))]) ''heading'' = Inr True"
  by (simp add: registered_def registered_value value_well_formed lookup_member_def
      members_named_def accessible_def)

end
